theory Spec2Isabelle
  imports Complex_Main
begin

section \<open>Python runtime values\<close>

text \<open>
  The two scripts \<^verbatim>\<open>main.py\<close> (class \<^verbatim>\<open>OCRProcessor\<close>, Tesseract) and
  \<^verbatim>\<open>paddle_ocr.py\<close> (class \<^verbatim>\<open>PaddleOCRProcessor\<close>) are embedded as functions over an
  explicit world (the file system and a clock) and an environment holding the external
  collaborators (OCR engines, the PDF rasteriser, the operating system).  Every
  \<^verbatim>\<open>raise\<close> is a value \<open>Inl e\<close>; every \<^verbatim>\<open>try/except\<close> is a case distinction on it.

  Exceptions: the subclasses of \<^verbatim>\<open>Exception\<close> that the modelled operations raise.
\<close>

datatype exn =
  IndexError | ValueError | TypeError | AttributeError | OverflowError | OSError | RuntimeError

text \<open>A Python float: a finite value (every finite double is a rational), an infinity or NaN.\<close>

datatype pyfloat = Fin rat | PosInf | NegInf | NaN

text \<open>
  The objects an engine may hand back.  Strings hold code points below 256; tuples and lists
  are both \<open>PList\<close> (the code only reads them).
\<close>

datatype pyval =
  PNone | PBool bool | PInt int | PFloat pyfloat | PStr string | PList "pyval list"

fun bindE :: "exn + 'a \<Rightarrow> ('a \<Rightarrow> exn + 'b) \<Rightarrow> exn + 'b" where
  "bindE (Inl e) f = Inl e"
| "bindE (Inr x) f = f x"

text \<open>\<^verbatim>\<open>len(x)\<close>\<close>

fun py_len :: "pyval \<Rightarrow> exn + nat" where
  "py_len (PStr s) = Inr (length s)"
| "py_len (PList xs) = Inr (length xs)"
| "py_len _ = Inl TypeError"

text \<open>\<^verbatim>\<open>x[i]\<close> for a literal index \<open>i \<ge> 0\<close>\<close>

fun py_getitem :: "pyval \<Rightarrow> nat \<Rightarrow> exn + pyval" where
  "py_getitem (PStr s) i = (if i < length s then Inr (PStr [s ! i]) else Inl IndexError)"
| "py_getitem (PList xs) i = (if i < length xs then Inr (xs ! i) else Inl IndexError)"
| "py_getitem _ i = Inl TypeError"

text \<open>The elements a \<^verbatim>\<open>for\<close> loop visits.\<close>

fun py_iter :: "pyval \<Rightarrow> exn + pyval list" where
  "py_iter (PStr s) = Inr (map (\<lambda>c. PStr [c]) s)"
| "py_iter (PList xs) = Inr xs"
| "py_iter _ = Inl TypeError"

subsection \<open>Binary floating point\<close>

text \<open>
  Round to nearest, ties to even, with a 53 bit significand: the rounding of every
  IEEE-754 double operation in the normal range (no overflow, no underflow).
\<close>

definition rne :: "rat \<Rightarrow> int" where
  "rne q = (let f = \<lfloor>q\<rfloor>; r = q - of_int f in
     if r < 1 / 2 then f else if 1 / 2 < r then f + 1 else if even f then f else f + 1)"

text \<open>\<open>bitlen n\<close> is the number of binary digits of \<open>n > 0\<close>.\<close>

function bitlen :: "int \<Rightarrow> int" where
  "bitlen n = (if 0 < n then bitlen (n div 2) + 1 else 0)"
  by pat_completeness auto
termination
  by (relation "measure nat") auto

declare bitlen.simps [simp del]

text \<open>The exponent \<open>e\<close> with \<open>2 powi e \<le> \<bar>x\<bar> < 2 powi (e + 1)\<close>, for \<open>x \<noteq> 0\<close>.\<close>

definition fexp :: "rat \<Rightarrow> int" where
  "fexp x = (let (a, b) = quotient_of \<bar>x\<bar>; d = bitlen a - bitlen b
     in if 2 powi d \<le> \<bar>x\<bar> then d else d - 1)"

definition fl53 :: "rat \<Rightarrow> rat" where
  "fl53 x = (if x = 0 then 0 else
     (let u = 2 powi (fexp x - 52) in of_int (rne (x / u)) * u))"

text \<open>\<^verbatim>\<open>int(x)\<close> of a finite float: truncation towards zero.\<close>

definition py_int :: "rat \<Rightarrow> int" where
  "py_int x = (if 0 \<le> x then \<lfloor>x\<rfloor> else \<lceil>x\<rceil>)"

text \<open>
  \<^verbatim>\<open>float(x)\<close>.  Parsing a string is the runtime's business and is taken as the parameter
  \<open>parse\<close> (\<open>None\<close> is \<^verbatim>\<open>ValueError\<close>).
\<close>

fun py_float :: "(string \<Rightarrow> pyfloat option) \<Rightarrow> pyval \<Rightarrow> exn + pyfloat" where
  "py_float parse (PFloat f) = Inr f"
| "py_float parse (PBool b) = Inr (Fin (if b then 1 else 0))"
| "py_float parse (PInt i) =
     (if \<bar>fl53 (of_int i)\<bar> < 2 ^ 1024 then Inr (Fin (fl53 (of_int i))) else Inl OverflowError)"
| "py_float parse (PStr s) = (case parse s of None \<Rightarrow> Inl ValueError | Some f \<Rightarrow> Inr f)"
| "py_float parse PNone = Inl TypeError"
| "py_float parse (PList xs) = Inl TypeError"

subsection \<open>Strings\<close>

text \<open>\<^verbatim>\<open>str.isspace\<close>, \<^verbatim>\<open>str.strip()\<close>, \<^verbatim>\<open>str.lower()\<close> and \<^verbatim>\<open>"\n".join\<close> on code points below 256.\<close>

definition py_isspace :: "char \<Rightarrow> bool" where
  "py_isspace c = ((of_char c :: nat) \<in> {9, 10, 11, 12, 13, 28, 29, 30, 31, 32, 133, 160})"

definition py_strip :: "string \<Rightarrow> string" where
  "py_strip s = rev (dropWhile py_isspace (rev (dropWhile py_isspace s)))"

definition py_lower_char :: "char \<Rightarrow> char" where
  "py_lower_char c = (let n = (of_char c :: nat) in
     if (65 \<le> n \<and> n \<le> 90) \<or> (192 \<le> n \<and> n \<le> 222 \<and> n \<noteq> 215) then char_of (n + 32) else c)"

definition py_lower :: "string \<Rightarrow> string" where
  "py_lower s = map py_lower_char s"

fun join_nl :: "string list \<Rightarrow> string" where
  "join_nl [] = []"
| "join_nl [s] = s"
| "join_nl (s # t # ts) = s @ [CHR 0x0A] @ join_nl (t # ts)"

text \<open>\<^verbatim>\<open>str(n)\<close> of a natural number, as the f-strings format \<^verbatim>\<open>i+1\<close> and the process id.\<close>

definition digit_char :: "nat \<Rightarrow> char" where
  "digit_char d = ''0123456789'' ! d"

fun str_of_nat :: "nat \<Rightarrow> string" where
  "str_of_nat n = (if n < 10 then [digit_char n] else str_of_nat (n div 10) @ [digit_char (n mod 10)])"

declare str_of_nat.simps [simp del]

subsection \<open>\<^verbatim>\<open>os.path\<close>\<close>

text \<open>
  \<open>seps\<close> lists the separators of the platform, \<^verbatim>\<open>os.sep\<close> first (\<^verbatim>\<open>/\<close> on POSIX;
  backslash and \<^verbatim>\<open>/\<close> on Windows).  Drive letters are not modelled.
\<close>

definition basename :: "string \<Rightarrow> string \<Rightarrow> string" where
  "basename seps p = rev (takeWhile (\<lambda>c. c \<notin> set seps) (rev p))"

text \<open>
  \<^verbatim>\<open>os.path.splitext\<close>: the extension starts at the last dot of the last component, unless
  only dots precede it there.
\<close>

definition splitext :: "string \<Rightarrow> string \<Rightarrow> string \<times> string" where
  "splitext seps p = (let b = basename seps p;
       ext = (if CHR ''.'' \<in> set (dropWhile (\<lambda>c. c = CHR ''.'') b)
              then CHR ''.'' # rev (takeWhile (\<lambda>c. c \<noteq> CHR ''.'') (rev b)) else [])
     in (take (length p - length ext) p, ext))"

definition path_join :: "string \<Rightarrow> string \<Rightarrow> string \<Rightarrow> string" where
  "path_join seps a b =
     (if b \<noteq> [] \<and> hd b \<in> set seps then b
      else if a = [] \<or> last a \<in> set seps then a @ b
      else a @ [hd seps] @ b)"

section \<open>The world: files, rasters, external collaborators\<close>

text \<open>A decoded raster page: its size, its colour mode and an identity for its pixels.\<close>

record raster =
  width :: int
  height :: int
  mode :: string
  pixels :: nat

text \<open>
  What \<^verbatim>\<open>json.dump\<close> is given: one result dictionary (an image) or a list of them (a PDF).
\<close>

datatype 'r payload = Single 'r | Many "'r list"

text \<open>Python truthiness of a result: a dictionary with keys is true, a list is true unless empty.\<close>

fun truthy :: "'r payload \<Rightarrow> bool" where
  "truthy (Single r) = True"
| "truthy (Many rs) = (rs \<noteq> [])"

text \<open>
  A file holds an image, a PDF with its pages, something undecodable, a complete JSON
  artifact, or what is left of an artifact whose \<^verbatim>\<open>json.dump\<close> stopped part-way
  (\<^verbatim>\<open>open(path, 'w')\<close> has created or truncated it by then).
\<close>

datatype 'r contents =
  ImageData raster | PdfData "raster list" | Garbage | Artifact "'r payload" | Truncated "'r payload"

record 'r world =
  files :: "string \<rightharpoonup> 'r contents"
  clock :: nat

text \<open>
  The environment: the operating system (\<open>seps\<close>, \<open>pid\<close>, \<open>isdir\<close>, \<open>listdir\<close>, and which
  \<open>makedirs\<close>, \<open>open\<close>, \<open>json.dump\<close>, \<open>Image.save\<close> and \<open>os.remove\<close> calls fail), Tesseract
  (\<open>image_to_string\<close>, \<open>get_tesseract_version\<close>), PaddleOCR (\<open>paddle_init\<close>, \<open>predict\<close>) and the
  float parser of the runtime.
\<close>

record 'r env =
  seps :: string
  pid :: nat
  isdir :: "string \<Rightarrow> bool"
  listdir :: "string \<Rightarrow> exn + string list"
  makedirs :: "string \<Rightarrow> exn option"
  open_w :: "string \<Rightarrow> exn option"
  json_dump :: "'r payload \<Rightarrow> exn option"
  img_save :: "string \<Rightarrow> raster \<Rightarrow> exn option"
  remove_fails :: "string \<Rightarrow> bool"
  image_to_string :: "raster \<Rightarrow> exn + string"
  get_tesseract_version :: "exn + pyval"
  paddle_init :: "exn option"
  predict :: "raster \<Rightarrow> exn + pyval"
  float_of_str :: "string \<Rightarrow> pyfloat option"

definition isfile :: "'r world \<Rightarrow> string \<Rightarrow> bool" where
  "isfile w p = (files w p \<noteq> None)"

definition path_exists :: "'r env \<Rightarrow> 'r world \<Rightarrow> string \<Rightarrow> bool" where
  "path_exists E w p = (isfile w p \<or> isdir E p)"

text \<open>\<^verbatim>\<open>Image.open(path)\<close> with the size and mode read from it.\<close>

definition image_open :: "'r world \<Rightarrow> string \<Rightarrow> exn + raster" where
  "image_open w p = (case files w p of Some (ImageData r) \<Rightarrow> Inr r | _ \<Rightarrow> Inl OSError)"

text \<open>\<^verbatim>\<open>convert_from_path(pdf_path)\<close>: all pages in document order, or no page at all.\<close>

definition convert_from_path :: "'r world \<Rightarrow> string \<Rightarrow> exn + raster list" where
  "convert_from_path w p = (case files w p of Some (PdfData pages) \<Rightarrow> Inr pages | _ \<Rightarrow> Inl OSError)"

text \<open>\<^verbatim>\<open>datetime.now()\<close>: reading the clock advances it.\<close>

definition tick :: "'r world \<Rightarrow> 'r world" where
  "tick w = w\<lparr>clock := Suc (clock w)\<rparr>"

text \<open>\<^verbatim>\<open>os.remove(p)\<close> inside \<^verbatim>\<open>try: ... except OSError: pass\<close>.\<close>

definition remove_quiet :: "'r env \<Rightarrow> 'r world \<Rightarrow> string \<Rightarrow> 'r world" where
  "remove_quiet E w p =
     (if remove_fails E p \<or> files w p = None then w else w\<lparr>files := (files w)(p := None)\<rparr>)"

text \<open>The default arguments and constants of the scripts (\<open>CHR 0x5C\<close> is the backslash).\<close>

definition input_path :: string where
  "input_path = ''DATA'' @ [CHR 0x5C] @ ''Processed Purchases''"

definition ocr_output_dir :: string where
  "ocr_output_dir = ''OUTPUT'' @ [CHR 0x5C] @ ''Processed Purchases''"

definition paddle_output_dir :: string where
  "paddle_output_dir = ''OUTPUT'' @ [CHR 0x5C] @ ''Processed Purchases_2''"

text \<open>
  The body shared by both \<^verbatim>\<open>save_results\<close> methods (\<^verbatim>\<open>main.py\<close> 61-79,
  \<^verbatim>\<open>paddle_ocr.py\<close> 151-170; they differ in what they print).
\<close>

definition output_path_of :: "'r env \<Rightarrow> string \<Rightarrow> string \<Rightarrow> string" where
  "output_path_of E output_dir input_filename =
     (let base_name = fst (splitext (seps E) (basename (seps E) input_filename))
      in path_join (seps E) output_dir (base_name @ ''.json''))"

definition save_results ::
  "'r env \<Rightarrow> string \<Rightarrow> 'r world \<Rightarrow> 'r payload \<Rightarrow> string \<Rightarrow> bool \<times> 'r world" where
  "save_results E output_dir w data input_filename =
     (if \<not> truthy data then (False, w)
      else
        (let output_path = output_path_of E output_dir input_filename in
         case open_w E output_path of
           Some e \<Rightarrow> (False, w)
         | None \<Rightarrow>
             (case json_dump E data of
                Some e \<Rightarrow> (False, w\<lparr>files := (files w)(output_path \<mapsto> Truncated data)\<rparr>)
              | None \<Rightarrow> (True, w\<lparr>files := (files w)(output_path \<mapsto> Artifact data)\<rparr>))))"

section \<open>\<^verbatim>\<open>main.py\<close>: class \<^verbatim>\<open>OCRProcessor\<close>\<close>

record ocr_metadata =
  o_image_size :: "int \<times> int"
  o_image_mode :: string
  o_ocr_engine :: string

text \<open>The result dictionary; \<open>o_page_number\<close> is \<open>None\<close> where the key is absent.\<close>

record ocr_result =
  o_filename :: string
  o_filetype :: string
  o_page_number :: "nat option"
  o_text :: string
  o_timestamp :: nat
  o_metadata :: ocr_metadata

text \<open>\<^verbatim>\<open>"Tesseract " + pytesseract.get_tesseract_version()\<close>: \<^verbatim>\<open>str + x\<close> needs a string.\<close>

definition tesseract_name :: "'r env \<Rightarrow> exn + string" where
  "tesseract_name E =
     (case get_tesseract_version E of
        Inl e \<Rightarrow> Inl e
      | Inr (PStr v) \<Rightarrow> Inr (''Tesseract '' @ v)
      | Inr _ \<Rightarrow> Inl TypeError)"

text \<open>\<^verbatim>\<open>process_image\<close> (13-32): the whole body is inside \<^verbatim>\<open>try ... except Exception\<close>.\<close>

definition ocr_process_image ::
  "ocr_result env \<Rightarrow> ocr_result world \<Rightarrow> string \<Rightarrow> ocr_result option \<times> ocr_result world" where
  "ocr_process_image E w image_path =
     (case image_open w image_path of
        Inl e \<Rightarrow> (None, w)
      | Inr img \<Rightarrow>
          (case image_to_string E img of
             Inl e \<Rightarrow> (None, w)
           | Inr txt \<Rightarrow>
               (case tesseract_name E of
                  Inl e \<Rightarrow> (None, tick w)
                | Inr engine \<Rightarrow>
                    (Some \<lparr>o_filename = basename (seps E) image_path,
                           o_filetype = ''image'',
                           o_page_number = None,
                           o_text = txt,
                           o_timestamp = clock w,
                           o_metadata = \<lparr>o_image_size = (width img, height img),
                                         o_image_mode = mode img,
                                         o_ocr_engine = engine\<rparr>\<rparr>, tick w))))"

text \<open>
  The loop of \<^verbatim>\<open>process_pdf\<close> (40-54) over \<^verbatim>\<open>enumerate(images)\<close>, from index \<open>i\<close>, with the
  results appended so far.  An exception leaves the loop.
\<close>

fun ocr_pdf_loop ::
  "ocr_result env \<Rightarrow> string \<Rightarrow> nat \<Rightarrow> raster list \<Rightarrow> ocr_result list \<Rightarrow> ocr_result world
    \<Rightarrow> (exn + ocr_result list) \<times> ocr_result world" where
  "ocr_pdf_loop E pdf_path i [] results w = (Inr results, w)"
| "ocr_pdf_loop E pdf_path i (img # images) results w =
     (case image_to_string E img of
        Inl e \<Rightarrow> (Inl e, w)
      | Inr txt \<Rightarrow>
          (case tesseract_name E of
             Inl e \<Rightarrow> (Inl e, tick w)
           | Inr engine \<Rightarrow>
               ocr_pdf_loop E pdf_path (Suc i) images
                 (results @
                   [\<lparr>o_filename = basename (seps E) pdf_path,
                     o_filetype = ''pdf'',
                     o_page_number = Some (i + 1),
                     o_text = txt,
                     o_timestamp = clock w,
                     o_metadata = \<lparr>o_image_size = (width img, height img),
                                   o_image_mode = mode img,
                                   o_ocr_engine = engine\<rparr>\<rparr>])
                 (tick w)))"

text \<open>\<^verbatim>\<open>process_pdf\<close> (34-59).\<close>

definition ocr_process_pdf ::
  "ocr_result env \<Rightarrow> ocr_result world \<Rightarrow> string \<Rightarrow> ocr_result list option \<times> ocr_result world" where
  "ocr_process_pdf E w pdf_path =
     (case convert_from_path w pdf_path of
        Inl e \<Rightarrow> (None, w)
      | Inr images \<Rightarrow>
          (case ocr_pdf_loop E pdf_path 0 images [] w of
             (Inl e, w') \<Rightarrow> (None, w')
           | (Inr results, w') \<Rightarrow> (Some results, w')))"

text \<open>\<^verbatim>\<open>process_single_file\<close> (81-91): dispatch on the lower-cased extension.\<close>

definition ocr_image_exts :: "string list" where
  "ocr_image_exts = [''.jpg'', ''.jpeg'', ''.png'', ''.bmp'', ''.tiff'', ''.gif'']"

definition file_ext :: "'r env \<Rightarrow> string \<Rightarrow> string" where
  "file_ext E file_path = py_lower (snd (splitext (seps E) file_path))"

definition ocr_process_single_file ::
  "ocr_result env \<Rightarrow> ocr_result world \<Rightarrow> string
    \<Rightarrow> ocr_result payload option \<times> ocr_result world" where
  "ocr_process_single_file E w file_path =
     (let file_ext = file_ext E file_path in
      if file_ext \<in> set ocr_image_exts then
        (case ocr_process_image E w file_path of (r, w') \<Rightarrow> (map_option Single r, w'))
      else if file_ext = ''.pdf'' then
        (case ocr_process_pdf E w file_path of (r, w') \<Rightarrow> (map_option Many r, w'))
      else (None, w))"

text \<open>
  The two counters of \<^verbatim>\<open>process_directory\<close> and the world.
\<close>

record 'r tally =
  processed_files :: nat
  skipped_files :: nat
  world_of :: "'r world"

text \<open>The body of the loop of \<^verbatim>\<open>process_directory\<close> (99-110) for one directory entry.\<close>

definition ocr_directory_step ::
  "ocr_result env \<Rightarrow> string \<Rightarrow> string \<Rightarrow> ocr_result tally \<Rightarrow> string \<Rightarrow> ocr_result tally" where
  "ocr_directory_step E output_dir dir_path t filename =
     (let file_path = path_join (seps E) dir_path filename in
      if isfile (world_of t) file_path then
        (case ocr_process_single_file E (world_of t) file_path of
           (Some result, w1) \<Rightarrow>
             (case save_results E output_dir w1 result file_path of
                (True, w2) \<Rightarrow> t\<lparr>processed_files := processed_files t + 1, world_of := w2\<rparr>
              | (False, w2) \<Rightarrow> t\<lparr>skipped_files := skipped_files t + 1, world_of := w2\<rparr>)
         | (None, w1) \<Rightarrow> t\<lparr>skipped_files := skipped_files t + 1, world_of := w1\<rparr>)
      else t)"

fun ocr_directory_loop ::
  "ocr_result env \<Rightarrow> string \<Rightarrow> string \<Rightarrow> string list \<Rightarrow> ocr_result tally \<Rightarrow> ocr_result tally" where
  "ocr_directory_loop E output_dir dir_path [] t = t"
| "ocr_directory_loop E output_dir dir_path (filename # rest) t =
     ocr_directory_loop E output_dir dir_path rest
       (ocr_directory_step E output_dir dir_path t filename)"

text \<open>
  \<^verbatim>\<open>process_directory\<close> (93-115).  \<^verbatim>\<open>os.listdir\<close> is outside every \<^verbatim>\<open>try\<close>.  The tally is
  what the method prints; it returns \<^verbatim>\<open>processed_files > 0\<close>.
\<close>

definition ocr_process_directory ::
  "ocr_result env \<Rightarrow> string \<Rightarrow> ocr_result world \<Rightarrow> string \<Rightarrow> exn + ocr_result tally" where
  "ocr_process_directory E output_dir w dir_path =
     (case listdir E dir_path of
        Inl e \<Rightarrow> Inl e
      | Inr names \<Rightarrow>
          Inr (ocr_directory_loop E output_dir dir_path names
                 \<lparr>processed_files = 0, skipped_files = 0, world_of = w\<rparr>))"

text \<open>
  One pass through the body of \<^verbatim>\<open>while True\<close> in \<^verbatim>\<open>main\<close> (124-146): it leaves the loop
  by \<^verbatim>\<open>break\<close>, goes round again, or lets an exception escape (there is no \<^verbatim>\<open>try\<close> in
  \<^verbatim>\<open>main\<close>, and \<^verbatim>\<open>OCRProcessor()\<close> calls \<^verbatim>\<open>os.makedirs\<close>).
\<close>

datatype 'r step = Break | Again "'r world" | Raise exn

definition ocr_main_body :: "ocr_result env \<Rightarrow> ocr_result world \<Rightarrow> ocr_result step" where
  "ocr_main_body E w =
     (if py_lower input_path = ''quit'' then Break
      else if \<not> path_exists E w input_path then Again w
      else
        (case makedirs E ocr_output_dir of
           Some e \<Rightarrow> Raise e
         | None \<Rightarrow>
             if isfile w input_path then
               (case ocr_process_single_file E w input_path of
                  (Some result, w1) \<Rightarrow>
                    (if truthy result
                     then Again (snd (save_results E ocr_output_dir w1 result input_path))
                     else Again w1)
                | (None, w1) \<Rightarrow> Again w1)
             else if isdir E input_path then
               (case ocr_process_directory E ocr_output_dir w input_path of
                  Inl e \<Rightarrow> Raise e
                | Inr t \<Rightarrow> Again (world_of t))
             else Again w))"

text \<open>
  \<^verbatim>\<open>main\<close>: \<open>None\<close> is a run that never ends, \<open>Some None\<close> a return, \<open>Some (Some e)\<close> an
  exception that ends the program.
\<close>

partial_function (option) ocr_main :: "ocr_result env \<Rightarrow> ocr_result world \<Rightarrow> exn option option" where
  "ocr_main E w =
     (case ocr_main_body E w of
        Break \<Rightarrow> Some None
      | Raise e \<Rightarrow> Some (Some e)
      | Again w' \<Rightarrow> ocr_main E w')"

section \<open>\<^verbatim>\<open>paddle_ocr.py\<close>: class \<^verbatim>\<open>PaddleOCRProcessor\<close>\<close>

text \<open>A text block; \<open>text'\<close> is the key \<^verbatim>\<open>"text"\<close>.\<close>

record text_block =
  block_id :: nat
  text' :: pyval
  confidence :: pyfloat
  coordinates :: pyval

record metadata =
  image_size :: "int \<times> int"
  image_mode :: string
  ocr_engine :: string
  total_blocks :: nat

record result =
  filename :: string
  filetype :: string
  page_number :: "nat option"
  text_blocks :: "text_block list"
  full_text :: string
  timestamp :: nat
  metadata :: metadata

subsection \<open>\<^verbatim>\<open>resize_image\<close>\<close>

text \<open>
  Lines 31-32: \<^verbatim>\<open>ratio = max_size / max(width, height)\<close> is a correctly rounded division
  of two integers; \<^verbatim>\<open>width * ratio\<close> converts \<^verbatim>\<open>width\<close> to a float and multiplies with one
  rounding; \<^verbatim>\<open>int\<close> truncates.
\<close>

definition new_size :: "int \<Rightarrow> int \<Rightarrow> int \<Rightarrow> int \<times> int" where
  "new_size wd ht max_size =
     (let ratio = fl53 (of_int max_size / of_int (max wd ht))
      in (py_int (fl53 (fl53 (of_int wd) * ratio)),
          py_int (fl53 (fl53 (of_int ht) * ratio))))"

text \<open>\<^verbatim>\<open>img.resize(new_size, LANCZOS)\<close>: Pillow refuses an empty target size.\<close>

definition pil_resize :: "raster \<Rightarrow> int \<times> int \<Rightarrow> exn + raster" where
  "pil_resize img sz =
     (if fst sz < 1 \<or> snd sz < 1 then Inl ValueError
      else Inr (img\<lparr>width := fst sz, height := snd sz\<rparr>))"

text \<open>
  \<^verbatim>\<open>resize_image\<close> (26-40): the path of a resized copy in the working directory, or the
  path it was given.
\<close>

definition resize_image ::
  "result env \<Rightarrow> result world \<Rightarrow> string \<Rightarrow> int \<Rightarrow> (exn + string) \<times> result world" where
  "resize_image E w image_path max_size =
     (case image_open w image_path of
        Inl e \<Rightarrow> (Inl e, w)
      | Inr img \<Rightarrow>
          if max (width img) (height img) > max_size then
            (case pil_resize img (new_size (width img) (height img) max_size) of
               Inl e \<Rightarrow> (Inl e, w)
             | Inr img' \<Rightarrow>
                 (let resized_image_path = ''resized_'' @ basename (seps E) image_path in
                  case img_save E resized_image_path img' of
                    Some e \<Rightarrow> (Inl e, w)
                  | None \<Rightarrow>
                      (Inr resized_image_path,
                       w\<lparr>files := (files w)(resized_image_path \<mapsto> ImageData img')\<rparr>)))
          else (Inr image_path, w))"

subsection \<open>\<^verbatim>\<open>process_image\<close>\<close>

text \<open>Line 64: \<^verbatim>\<open>block[1][0] if len(block) > 1 and len(block[1]) > 0 else ""\<close>.\<close>

definition block_text :: "pyval \<Rightarrow> exn + pyval" where
  "block_text block =
     bindE (py_len block) (\<lambda>n.
       if n > 1 then
         bindE (py_getitem block 1) (\<lambda>b1.
           bindE (py_len b1) (\<lambda>m.
             if m > 0 then bindE (py_getitem block 1) (\<lambda>b1'. py_getitem b1' 0)
             else Inr (PStr [])))
       else Inr (PStr []))"

text \<open>Line 65: \<^verbatim>\<open>float(block[1][1]) if len(block) > 1 and len(block[1]) > 1 else 0.0\<close>.\<close>

definition block_confidence :: "'r env \<Rightarrow> pyval \<Rightarrow> exn + pyfloat" where
  "block_confidence E block =
     bindE (py_len block) (\<lambda>n.
       if n > 1 then
         bindE (py_getitem block 1) (\<lambda>b1.
           bindE (py_len b1) (\<lambda>m.
             if m > 1 then
               bindE (py_getitem block 1) (\<lambda>b1'.
                 bindE (py_getitem b1' 1) (py_float (float_of_str E)))
             else Inr (Fin 0)))
       else Inr (Fin 0))"

text \<open>Line 66: \<^verbatim>\<open>block[0] if len(block) > 0 else []\<close>.\<close>

definition block_coordinates :: "pyval \<Rightarrow> exn + pyval" where
  "block_coordinates block =
     bindE (py_len block) (\<lambda>n. if n > 0 then py_getitem block 0 else Inr (PList []))"

text \<open>\<^verbatim>\<open>text.strip()\<close> as a condition: only a string has the method.\<close>

fun strip_truthy :: "pyval \<Rightarrow> exn + bool" where
  "strip_truthy (PStr s) = Inr (py_strip s \<noteq> [])"
| "strip_truthy _ = Inl AttributeError"

text \<open>What \<^verbatim>\<open>except (IndexError, ValueError, TypeError)\<close> on line 78 catches.\<close>

definition caught :: "exn \<Rightarrow> bool" where
  "caught e = (e = IndexError \<or> e = ValueError \<or> e = TypeError)"

text \<open>
  The body of the inner loop (63-80) for the block with index \<open>idx\<close>: the two lists after
  it, or the exception that the \<^verbatim>\<open>try\<close> of line 63 lets through.  A block is appended to
  \<^verbatim>\<open>text_blocks\<close> before its text is stripped.
\<close>

definition block_step ::
  "'r env \<Rightarrow> nat \<Rightarrow> pyval \<Rightarrow> text_block list \<times> string list
    \<Rightarrow> exn + text_block list \<times> string list" where
  "block_step E idx block acc =
     (case bindE (block_text block) (\<lambda>t.
             bindE (block_confidence E block) (\<lambda>c.
               bindE (block_coordinates block) (\<lambda>xy. Inr (t, c, xy)))) of
        Inl e \<Rightarrow> if caught e then Inr acc else Inl e
      | Inr (t, c, xy) \<Rightarrow>
          (let blocks' = fst acc @ [\<lparr>block_id = idx, text' = t, confidence = c, coordinates = xy\<rparr>]
           in case strip_truthy t of
                Inl e \<Rightarrow> if caught e then Inr (blocks', snd acc) else Inl e
              | Inr b \<Rightarrow>
                  Inr (blocks', if b then snd acc @ [case t of PStr s \<Rightarrow> s | _ \<Rightarrow> []] else snd acc)))"

fun block_loop ::
  "'r env \<Rightarrow> nat \<Rightarrow> pyval list \<Rightarrow> text_block list \<times> string list
    \<Rightarrow> exn + text_block list \<times> string list" where
  "block_loop E idx [] acc = Inr acc"
| "block_loop E idx (block # rest) acc =
     (case block_step E idx block acc of
        Inl e \<Rightarrow> Inl e
      | Inr acc' \<Rightarrow> block_loop E (Suc idx) rest acc')"

text \<open>The outer loop (60-80) over the pages of the engine's result.\<close>

fun page_loop ::
  "'r env \<Rightarrow> pyval list \<Rightarrow> text_block list \<times> string list
    \<Rightarrow> exn + text_block list \<times> string list" where
  "page_loop E [] acc = Inr acc"
| "page_loop E (page_result # rest) acc =
     (if page_result = PNone then page_loop E rest acc
      else
        (case py_iter page_result of
           Inl e \<Rightarrow> Inl e
         | Inr blocks \<Rightarrow>
             (case block_loop E 0 blocks acc of
                Inl e \<Rightarrow> Inl e
              | Inr acc' \<Rightarrow> page_loop E rest acc')))"

text \<open>Lines 56-80 on the value \<^verbatim>\<open>predict\<close> returned.\<close>

definition extract_blocks :: "'r env \<Rightarrow> pyval \<Rightarrow> exn + text_block list \<times> string list" where
  "extract_blocks E res =
     (if res = PNone then Inr ([], [])
      else (case py_iter res of Inl e \<Rightarrow> Inl e | Inr pages \<Rightarrow> page_loop E pages ([], [])))"

text \<open>\<^verbatim>\<open>self.ocr.predict(path)\<close>: the engine reads the image file.\<close>

definition ocr_predict :: "'r env \<Rightarrow> 'r world \<Rightarrow> string \<Rightarrow> exn + pyval" where
  "ocr_predict E w p = (case image_open w p of Inl e \<Rightarrow> Inl e | Inr img \<Rightarrow> predict E img)"

text \<open>
  \<^verbatim>\<open>process_image\<close> (42-106).  The resized copy is removed on line 85, after the loops;
  the handler of line 103 returns \<^verbatim>\<open>None\<close> and removes nothing.
\<close>

definition paddle_process_image ::
  "result env \<Rightarrow> result world \<Rightarrow> string \<Rightarrow> result option \<times> result world" where
  "paddle_process_image E w image_path =
     (case resize_image E w image_path 4000 of
        (Inl e, w1) \<Rightarrow> (None, w1)
      | (Inr resized_image_path, w1) \<Rightarrow>
          (case ocr_predict E w1 resized_image_path of
             Inl e \<Rightarrow> (None, w1)
           | Inr res \<Rightarrow>
               (case extract_blocks E res of
                  Inl e \<Rightarrow> (None, w1)
                | Inr (blocks, full_text_parts) \<Rightarrow>
                    (let w2 = (if resized_image_path \<noteq> image_path
                               then remove_quiet E w1 resized_image_path else w1)
                     in case image_open w2 image_path of
                          Inl e \<Rightarrow> (None, tick w2)
                        | Inr img \<Rightarrow>
                            (Some \<lparr>filename = basename (seps E) image_path,
                                   filetype = ''image'',
                                   page_number = None,
                                   text_blocks = blocks,
                                   full_text = join_nl full_text_parts,
                                   timestamp = clock w2,
                                   metadata = \<lparr>image_size = (width img, height img),
                                               image_mode = mode img,
                                               ocr_engine = ''PaddleOCR'',
                                               total_blocks = length blocks\<rparr>\<rparr>,
                             tick w2)))))"

subsection \<open>\<^verbatim>\<open>process_pdf\<close>\<close>

definition temp_img_path :: "'r env \<Rightarrow> nat \<Rightarrow> string" where
  "temp_img_path E i = ''temp_page_'' @ str_of_nat (i + 1) @ ''_'' @ str_of_nat (pid E) @ ''.jpg''"

text \<open>
  The loop of lines 122-142 from page index \<open>i\<close>.  A page whose \<^verbatim>\<open>save\<close> raises, or whose
  \<^verbatim>\<open>process_image\<close> returns \<^verbatim>\<open>None\<close>, adds nothing to \<^verbatim>\<open>results\<close>.
\<close>

fun paddle_pdf_loop ::
  "result env \<Rightarrow> nat \<Rightarrow> raster list \<Rightarrow> result list \<Rightarrow> result world
    \<Rightarrow> result list \<times> result world" where
  "paddle_pdf_loop E i [] results w = (results, w)"
| "paddle_pdf_loop E i (img # images) results w =
     (case img_save E (temp_img_path E i) img of
        Some e \<Rightarrow> paddle_pdf_loop E (Suc i) images results w
      | None \<Rightarrow>
          (case paddle_process_image E
                  (w\<lparr>files := (files w)(temp_img_path E i \<mapsto> ImageData img)\<rparr>)
                  (temp_img_path E i) of
             (page_result, w2) \<Rightarrow>
               paddle_pdf_loop E (Suc i) images
                 (case page_result of
                    Some r \<Rightarrow> results @ [r\<lparr>page_number := Some (i + 1), filetype := ''pdf_page''\<rparr>]
                  | None \<Rightarrow> results)
                 (remove_quiet E w2 (temp_img_path E i))))"

text \<open>\<^verbatim>\<open>process_pdf\<close> (108-149).\<close>

definition paddle_process_pdf ::
  "result env \<Rightarrow> result world \<Rightarrow> string \<Rightarrow> result list option \<times> result world" where
  "paddle_process_pdf E w pdf_path =
     (case convert_from_path w pdf_path of
        Inl e \<Rightarrow> (None, w)
      | Inr images \<Rightarrow>
          (case paddle_pdf_loop E 0 images [] w of (results, w') \<Rightarrow> (Some results, w')))"

subsection \<open>\<^verbatim>\<open>process_file\<close> and \<^verbatim>\<open>main\<close>\<close>

definition paddle_image_exts :: "string list" where
  "paddle_image_exts = [''.jpg'', ''.jpeg'', ''.png'', ''.bmp'', ''.tiff'', ''.webp'']"

text \<open>Lines 189-193: \<^verbatim>\<open>if result: return self.save_results(...) else: return False\<close>.\<close>

definition save_if_result ::
  "result env \<Rightarrow> string \<Rightarrow> result payload option \<times> result world \<Rightarrow> string
    \<Rightarrow> bool \<times> result world" where
  "save_if_result E output_dir rw file_path =
     (case rw of
        (Some data, w1) \<Rightarrow>
          if truthy data then save_results E output_dir w1 data file_path else (False, w1)
      | (None, w1) \<Rightarrow> (False, w1))"

text \<open>\<^verbatim>\<open>process_file\<close> (172-193).\<close>

definition paddle_process_file ::
  "result env \<Rightarrow> string \<Rightarrow> result world \<Rightarrow> string \<Rightarrow> bool \<times> result world" where
  "paddle_process_file E output_dir w file_path =
     (if \<not> path_exists E w file_path then (False, w)
      else
        (let ext = file_ext E file_path in
         if ext \<in> set paddle_image_exts then
           (case paddle_process_image E w file_path of
              (r, w1) \<Rightarrow> save_if_result E output_dir (map_option Single r, w1) file_path)
         else if ext = ''.pdf'' then
           (case paddle_process_pdf E w file_path of
              (r, w1) \<Rightarrow> save_if_result E output_dir (map_option Many r, w1) file_path)
         else (False, w)))"

text \<open>The two counters of the loop in \<^verbatim>\<open>main\<close> (210-226) and the world.\<close>

record batch =
  files_processed :: nat
  files_failed :: nat
  batch_world :: "result world"

definition paddle_main_step ::
  "result env \<Rightarrow> string \<Rightarrow> string \<Rightarrow> batch \<Rightarrow> string \<Rightarrow> batch" where
  "paddle_main_step E output_dir dir_path b fname =
     (let file_path = path_join (seps E) dir_path fname in
      if isfile (batch_world b) file_path then
        (case paddle_process_file E output_dir (batch_world b) file_path of
           (True, w') \<Rightarrow> b\<lparr>files_processed := files_processed b + 1, batch_world := w'\<rparr>
         | (False, w') \<Rightarrow> b\<lparr>files_failed := files_failed b + 1, batch_world := w'\<rparr>)
      else b)"

fun paddle_main_loop ::
  "result env \<Rightarrow> string \<Rightarrow> string \<Rightarrow> string list \<Rightarrow> batch \<Rightarrow> batch" where
  "paddle_main_loop E output_dir dir_path [] b = b"
| "paddle_main_loop E output_dir dir_path (fname # rest) b =
     paddle_main_loop E output_dir dir_path rest
       (paddle_main_step E output_dir dir_path b fname)"



section \<open>Notions used in the statements\<close>







section \<open>Concrete inputs\<close>

text \<open>
  Small worlds and environments on which the statements below are evaluated: a POSIX
  system where every external call succeeds, Tesseract reads \<open>INVOICE\<close> on every page and
  PaddleOCR finds no block.
\<close>

definition page0 :: raster where
  "page0 = \<lparr>width = 200, height = 100, mode = ''RGB'', pixels = 0\<rparr>"

definition page1 :: raster where
  "page1 = \<lparr>width = 1654, height = 2339, mode = ''RGB'', pixels = 1\<rparr>"

definition page2 :: raster where
  "page2 = \<lparr>width = 1654, height = 2339, mode = ''RGB'', pixels = 2\<rparr>"

definition base_env :: "'r env" where
  "base_env = \<lparr>seps = ''/'', pid = 4242, isdir = (\<lambda>p. False), listdir = (\<lambda>p. Inr []),
     makedirs = (\<lambda>p. None), open_w = (\<lambda>p. None), json_dump = (\<lambda>d. None),
     img_save = (\<lambda>p r. None), remove_fails = (\<lambda>p. False),
     image_to_string = (\<lambda>r. Inr ''INVOICE''), get_tesseract_version = Inr (PStr ''5.3.0''),
     paddle_init = None, predict = (\<lambda>r. Inr (PList [])), float_of_str = (\<lambda>s. None)\<rparr>"

definition world0 :: "'r world" where
  "world0 = \<lparr>files = [''in/scan.webp'' \<mapsto> ImageData page0, ''in/scan.gif'' \<mapsto> ImageData page0,
      ''in/scan.PNG'' \<mapsto> ImageData page0, ''in/receipt.pdf'' \<mapsto> PdfData [page1, page2],
      ''in/notes.txt'' \<mapsto> Garbage, ''in/bad.png'' \<mapsto> Garbage], clock = 0\<rparr>"

definition tally0 :: "ocr_result tally" where
  "tally0 = \<lparr>processed_files = 0, skipped_files = 0, world_of = world0\<rparr>"

definition batch0 :: batch where
  "batch0 = \<lparr>files_processed = 0, files_failed = 0, batch_world = world0\<rparr>"

definition no_output_env :: "'r env" where
  "no_output_env = base_env\<lparr>isdir := (\<lambda>p. p = input_path), makedirs := (\<lambda>p. Some OSError)\<rparr>"

definition idle_env :: "'r env" where
  "idle_env = base_env\<lparr>isdir := (\<lambda>p. p = input_path)\<rparr>"

definition dump_fails_env :: "'r env" where
  "dump_fails_env = base_env\<lparr>json_dump := (\<lambda>d. Some TypeError)\<rparr>"

definition scan_result :: ocr_result where
  "scan_result = \<lparr>o_filename = ''scan.PNG'', o_filetype = ''image'', o_page_number = None,
     o_text = ''INVOICE'', o_timestamp = 0,
     o_metadata = \<lparr>o_image_size = (200, 100), o_image_mode = ''RGB'',
                   o_ocr_engine = ''Tesseract 5.3.0''\<rparr>\<rparr>"

definition blank_result :: result where
  "blank_result = \<lparr>filename = ''scan.PNG'', filetype = ''image'', page_number = None,
     text_blocks = [], full_text = [], timestamp = 0,
     metadata = \<lparr>image_size = (200, 100), image_mode = ''RGB'', ocr_engine = ''PaddleOCR'',
                 total_blocks = 0\<rparr>\<rparr>"











text \<open>A 5000 by 3000 image, and an engine whose \<^verbatim>\<open>predict\<close> raises.\<close>

definition poster :: raster where
  "poster = \<lparr>width = 5000, height = 3000, mode = ''RGB'', pixels = 3\<rparr>"

definition poster_world :: "'r world" where
  "poster_world = \<lparr>files = [''in/poster.png'' \<mapsto> ImageData poster], clock = 0\<rparr>"

definition engine_down_env :: "'r env" where
  "engine_down_env = base_env\<lparr>predict := (\<lambda>img. Inl RuntimeError)\<rparr>"






section \<open>Evaluation of the concrete inputs\<close>

lemma ext_webp: "file_ext base_env ''in/scan.webp'' = ''.webp''"
  by code_simp

lemma ext_gif: "file_ext base_env ''in/scan.gif'' = ''.gif''"
  by code_simp

lemma ext_PNG: "file_ext base_env ''in/scan.PNG'' = ''.png''"
  by code_simp

lemma ext_pdf: "file_ext base_env ''in/receipt.pdf'' = ''.pdf''"
  by code_simp

lemma ext_txt: "file_ext base_env ''in/notes.txt'' = ''.txt''"
  by code_simp

lemma ext_bad: "file_ext base_env ''in/bad.png'' = ''.png''"
  by code_simp

lemma join_in: "path_join (seps base_env) ''in'' ''notes.txt'' = ''in/notes.txt''"
   "path_join (seps base_env) ''in'' ''bad.png'' = ''in/bad.png''"
  by (simp_all add: path_join_def base_env_def)

section \<open>File-type dispatch\<close>

text \<open>
  C7, as stated, fails: \<^verbatim>\<open>main.py\<close> does not list \<^verbatim>\<open>.webp\<close> and \<^verbatim>\<open>paddle_ocr.py\<close> does not list
  \<^verbatim>\<open>.gif\<close>.  A decodable \<^verbatim>\<open>scan.webp\<close> is skipped by \<^verbatim>\<open>process_single_file\<close> although
  \<^verbatim>\<open>process_image\<close> would read it, and a decodable \<^verbatim>\<open>scan.gif\<close> is rejected by
  \<^verbatim>\<open>process_file\<close>.
\<close>

theorem dispatch_webp_gif_counterexample:
  "ocr_process_single_file base_env world0 ''in/scan.webp'' = (None, world0) \<and>
   fst (ocr_process_image base_env world0 ''in/scan.webp'') \<noteq> None \<and>
   paddle_process_file base_env paddle_output_dir world0 ''in/scan.gif'' = (False, world0) \<and>
   fst (paddle_process_image base_env world0 ''in/scan.gif'') \<noteq> None"
  apply (intro conjI)
     apply (simp add: ocr_process_single_file_def ext_webp ocr_image_exts_def)
    apply (simp add: ocr_process_image_def image_open_def world0_def base_env_def tesseract_name_def)
   apply (simp add: paddle_process_file_def ext_gif paddle_image_exts_def)
  apply (simp add: paddle_process_image_def resize_image_def image_open_def world0_def base_env_def page0_def ocr_predict_def extract_blocks_def)
  done

text \<open>
  C7 (amended): the extension is compared after \<^verbatim>\<open>lower()\<close>.  \<^verbatim>\<open>OCRProcessor\<close> routes
  \<^verbatim>\<open>.jpg .jpeg .png .bmp .tiff .gif\<close> to \<^verbatim>\<open>process_image\<close>, \<^verbatim>\<open>.pdf\<close> to \<^verbatim>\<open>process_pdf\<close> and
  skips everything else (so \<^verbatim>\<open>.webp\<close>) untouched; \<^verbatim>\<open>PaddleOCRProcessor\<close> routes
  \<^verbatim>\<open>.jpg .jpeg .png .bmp .tiff .webp\<close> to \<^verbatim>\<open>process_image\<close>, \<^verbatim>\<open>.pdf\<close> to \<^verbatim>\<open>process_pdf\<close> and
  rejects everything else (so \<^verbatim>\<open>.gif\<close>) untouched.
\<close>

theorem dispatch_by_extension:
  fixes E :: "ocr_result env" and P :: "result env"
  shows
  "(py_lower (snd (splitext (seps E) p)) \<in> {''.jpg'', ''.jpeg'', ''.png'', ''.bmp'', ''.tiff'', ''.gif''} \<longrightarrow>
      ocr_process_single_file E w p =
        (map_option Single (fst (ocr_process_image E w p)), snd (ocr_process_image E w p))) \<and>
   (py_lower (snd (splitext (seps E) p)) = ''.pdf'' \<longrightarrow>
      ocr_process_single_file E w p =
        (map_option Many (fst (ocr_process_pdf E w p)), snd (ocr_process_pdf E w p))) \<and>
   (py_lower (snd (splitext (seps E) p)) \<notin>
        {''.jpg'', ''.jpeg'', ''.png'', ''.bmp'', ''.tiff'', ''.gif'', ''.pdf''} \<longrightarrow>
      ocr_process_single_file E w p = (None, w)) \<and>
   (path_exists P v q \<longrightarrow>
     (py_lower (snd (splitext (seps P) q)) \<in> {''.jpg'', ''.jpeg'', ''.png'', ''.bmp'', ''.tiff'', ''.webp''} \<longrightarrow>
        paddle_process_file P d v q =
          save_if_result P d (map_option Single (fst (paddle_process_image P v q)),
                              snd (paddle_process_image P v q)) q) \<and>
     (py_lower (snd (splitext (seps P) q)) = ''.pdf'' \<longrightarrow>
        paddle_process_file P d v q =
          save_if_result P d (map_option Many (fst (paddle_process_pdf P v q)),
                              snd (paddle_process_pdf P v q)) q) \<and>
     (py_lower (snd (splitext (seps P) q)) \<notin>
          {''.jpg'', ''.jpeg'', ''.png'', ''.bmp'', ''.tiff'', ''.webp'', ''.pdf''} \<longrightarrow>
        paddle_process_file P d v q = (False, v)))"
  by (auto simp: ocr_process_single_file_def paddle_process_file_def file_ext_def
      ocr_image_exts_def paddle_image_exts_def split: prod.splits)

text \<open>The dispatch of C7 on \<^verbatim>\<open>scan.PNG\<close>, \<^verbatim>\<open>receipt.pdf\<close> and \<^verbatim>\<open>notes.txt\<close>.\<close>

theorem dispatch_by_extension_witness:
  "ocr_process_single_file base_env world0 ''in/scan.PNG'' =
     (map_option Single (fst (ocr_process_image base_env world0 ''in/scan.PNG'')),
      snd (ocr_process_image base_env world0 ''in/scan.PNG'')) \<and>
   ocr_process_single_file base_env world0 ''in/receipt.pdf'' =
     (map_option Many (fst (ocr_process_pdf base_env world0 ''in/receipt.pdf'')),
      snd (ocr_process_pdf base_env world0 ''in/receipt.pdf'')) \<and>
   ocr_process_single_file base_env world0 ''in/notes.txt'' = (None, world0) \<and>
   path_exists base_env (world0 :: result world) ''in/scan.PNG'' \<and>
   paddle_process_file base_env ''out'' world0 ''in/scan.PNG'' =
     save_if_result base_env ''out''
       (map_option Single (fst (paddle_process_image base_env world0 ''in/scan.PNG'')),
        snd (paddle_process_image base_env world0 ''in/scan.PNG'')) ''in/scan.PNG''"
proof -
  have e1: "py_lower (snd (splitext (seps base_env) ''in/scan.PNG'')) = ''.png''"
    using ext_PNG by (simp add: file_ext_def)
  have e2: "py_lower (snd (splitext (seps base_env) ''in/receipt.pdf'')) = ''.pdf''"
    using ext_pdf by (simp add: file_ext_def)
  have e3: "py_lower (snd (splitext (seps base_env) ''in/notes.txt'')) = ''.txt''"
    using ext_txt by (simp add: file_ext_def)
  have ex: "path_exists base_env (world0 :: result world) ''in/scan.PNG''"
    by (simp add: path_exists_def isfile_def world0_def)
  show ?thesis
    using dispatch_by_extension [of base_env "''in/scan.PNG''" world0 base_env world0 "''in/scan.PNG''" "''out''"]
      dispatch_by_extension [of base_env "''in/receipt.pdf''" world0 base_env world0 "''in/scan.PNG''" "''out''"]
      dispatch_by_extension [of base_env "''in/notes.txt''" world0 base_env world0 "''in/scan.PNG''" "''out''"]
    by (simp add: e1 e2 e3 ex)
qed

lemma seps_base: "seps base_env = ''/''" "seps dump_fails_env = ''/''"
  by (simp_all add: base_env_def dump_fails_env_def)

lemma exts_dump: "file_ext dump_fails_env ''in/scan.PNG'' = ''.png''"
  by code_simp

lemma out_scan: "output_path_of dump_fails_env ''out'' ''in/scan.PNG'' = ''out/scan.json''"
  by code_simp

section \<open>Batch accounting\<close>

text \<open>
  C6, as stated, fails in one part: an unsupported file is not counted apart from failures.
  Each loop has two counters only, and a directory holding just \<^verbatim>\<open>notes.txt\<close> ends with
  the same tally as a directory holding just an undecodable \<^verbatim>\<open>bad.png\<close>, in both scripts.
\<close>

theorem unsupported_counted_as_failure_counterexample:
  "ocr_directory_loop base_env ''out'' ''in'' [''notes.txt''] tally0 = tally0\<lparr>skipped_files := 1\<rparr> \<and>
   ocr_directory_loop base_env ''out'' ''in'' [''bad.png''] tally0 = tally0\<lparr>skipped_files := 1\<rparr> \<and>
   paddle_main_loop base_env ''out'' ''in'' [''notes.txt''] batch0 = batch0\<lparr>files_failed := 1\<rparr> \<and>
   paddle_main_loop base_env ''out'' ''in'' [''bad.png''] batch0 = batch0\<lparr>files_failed := 1\<rparr>"
proof -
  have f: "isfile (world0 :: 'a world) ''in/notes.txt''" "isfile (world0 :: 'a world) ''in/bad.png''"
    by (simp_all add: isfile_def world0_def)
  have o: "image_open (world0 :: 'a world) ''in/bad.png'' = Inl OSError"
    by (simp add: image_open_def world0_def)
  have 1: "ocr_process_single_file base_env world0 ''in/notes.txt'' = (None, world0)"
    by (simp add: ocr_process_single_file_def ext_txt ocr_image_exts_def)
  have 2: "ocr_process_single_file base_env world0 ''in/bad.png'' = (None, world0)"
    by (simp add: ocr_process_single_file_def ext_bad ocr_image_exts_def ocr_process_image_def o)
  have 3: "paddle_process_file base_env ''out'' world0 ''in/notes.txt'' = (False, world0)"
    by (simp add: paddle_process_file_def ext_txt paddle_image_exts_def)
  have 4: "paddle_process_file base_env ''out'' world0 ''in/bad.png'' = (False, world0)"
    by (simp add: paddle_process_file_def ext_bad paddle_image_exts_def paddle_process_image_def
        resize_image_def o path_exists_def f save_if_result_def)
  show ?thesis
    by (simp add: ocr_directory_step_def paddle_main_step_def join_in tally0_def batch0_def f 1 2 3 4)
qed

lemma ocr_step_unsupported:
  fixes E :: "ocr_result env"
  assumes "isfile (world_of t) (path_join (seps E) dir f)"
    and "file_ext E (path_join (seps E) dir f) \<notin>
      {''.jpg'', ''.jpeg'', ''.png'', ''.bmp'', ''.tiff'', ''.gif'', ''.pdf''}"
  shows "ocr_directory_step E out dir t f = t\<lparr>skipped_files := skipped_files t + 1\<rparr>"
  using assms
  by (simp add: ocr_directory_step_def ocr_process_single_file_def ocr_image_exts_def Let_def)

lemma ocr_step_failed:
  fixes E :: "ocr_result env"
  assumes "isfile (world_of t) (path_join (seps E) dir f)"
    and "fst (ocr_process_single_file E (world_of t) (path_join (seps E) dir f)) = None"
  shows "skipped_files (ocr_directory_step E out dir t f) = skipped_files t + 1 \<and>
         processed_files (ocr_directory_step E out dir t f) = processed_files t"
proof (cases "ocr_process_single_file E (world_of t) (path_join (seps E) dir f)")
  case (Pair r w1)
  with assms show ?thesis
    by (simp add: ocr_directory_step_def Let_def)
qed

lemma paddle_step_unsupported:
  fixes P :: "result env"
  assumes "isfile (batch_world b) (path_join (seps P) dir f)"
    and "file_ext P (path_join (seps P) dir f) \<notin>
      {''.jpg'', ''.jpeg'', ''.png'', ''.bmp'', ''.tiff'', ''.webp'', ''.pdf''}"
  shows "paddle_main_step P out dir b f = b\<lparr>files_failed := files_failed b + 1\<rparr>"
  using assms
  by (simp add: paddle_main_step_def paddle_process_file_def paddle_image_exts_def Let_def
      path_exists_def)

lemma paddle_step_failed:
  fixes P :: "result env"
  assumes "isfile (batch_world b) (path_join (seps P) dir f)"
    and "\<not> fst (paddle_process_file P out (batch_world b) (path_join (seps P) dir f))"
  shows "files_failed (paddle_main_step P out dir b f) = files_failed b + 1 \<and>
         files_processed (paddle_main_step P out dir b f) = files_processed b"
proof (cases "paddle_process_file P out (batch_world b) (path_join (seps P) dir f)")
  case (Pair ok w1)
  with assms show ?thesis
    by (simp add: paddle_main_step_def Let_def)
qed

text \<open>
  C6 (amended): a regular file whose extension is neither a listed image extension nor
  \<^verbatim>\<open>.pdf\<close> is skipped: the world is unchanged (no artifact), the loop goes on with the
  next entry, and the file adds one to \<^verbatim>\<open>skipped_files\<close> (\<^verbatim>\<open>main.py\<close>) or \<^verbatim>\<open>files_failed\<close>
  (\<^verbatim>\<open>paddle_ocr.py\<close>), the counter that a failed file adds one to as well.
\<close>

theorem unsupported_skipped:
  fixes E :: "ocr_result env" and P :: "result env"
  shows
  "(isfile (world_of t) (path_join (seps E) dir f) \<and>
    file_ext E (path_join (seps E) dir f) \<notin>
      {''.jpg'', ''.jpeg'', ''.png'', ''.bmp'', ''.tiff'', ''.gif'', ''.pdf''} \<longrightarrow>
      ocr_directory_step E out dir t f = t\<lparr>skipped_files := skipped_files t + 1\<rparr> \<and>
      ocr_directory_loop E out dir (f # rest) t =
        ocr_directory_loop E out dir rest (t\<lparr>skipped_files := skipped_files t + 1\<rparr>)) \<and>
   (isfile (world_of t) (path_join (seps E) dir f) \<and>
    fst (ocr_process_single_file E (world_of t) (path_join (seps E) dir f)) = None \<longrightarrow>
      skipped_files (ocr_directory_step E out dir t f) = skipped_files t + 1 \<and>
      processed_files (ocr_directory_step E out dir t f) = processed_files t) \<and>
   (isfile (batch_world b) (path_join (seps P) dir f) \<and>
    file_ext P (path_join (seps P) dir f) \<notin>
      {''.jpg'', ''.jpeg'', ''.png'', ''.bmp'', ''.tiff'', ''.webp'', ''.pdf''} \<longrightarrow>
      paddle_main_step P out dir b f = b\<lparr>files_failed := files_failed b + 1\<rparr> \<and>
      paddle_main_loop P out dir (f # rest) b =
        paddle_main_loop P out dir rest (b\<lparr>files_failed := files_failed b + 1\<rparr>)) \<and>
   (isfile (batch_world b) (path_join (seps P) dir f) \<and>
    \<not> fst (paddle_process_file P out (batch_world b) (path_join (seps P) dir f)) \<longrightarrow>
      files_failed (paddle_main_step P out dir b f) = files_failed b + 1 \<and>
      files_processed (paddle_main_step P out dir b f) = files_processed b)"
  using ocr_step_unsupported [of t E dir f out] ocr_step_failed [of t E dir f out]
    paddle_step_unsupported [of b P dir f out] paddle_step_failed [of b P dir f out]
  by simp

text \<open>C6 on \<^verbatim>\<open>notes.txt\<close> (unsupported) and \<^verbatim>\<open>bad.png\<close> (undecodable).\<close>

theorem unsupported_skipped_witness:
  "ocr_directory_step base_env ''out'' ''in'' tally0 ''notes.txt'' = tally0\<lparr>skipped_files := 1\<rparr> \<and>
   paddle_main_step base_env ''out'' ''in'' batch0 ''notes.txt'' = batch0\<lparr>files_failed := 1\<rparr> \<and>
   skipped_files (ocr_directory_step base_env ''out'' ''in'' tally0 ''bad.png'') = 1 \<and>
   files_failed (paddle_main_step base_env ''out'' ''in'' batch0 ''bad.png'') = 1"
proof -
  have f: "isfile (world0 :: 'a world) ''in/notes.txt''" "isfile (world0 :: 'a world) ''in/bad.png''"
    by (simp_all add: isfile_def world0_def)
  have o: "image_open (world0 :: 'a world) ''in/bad.png'' = Inl OSError"
    by (simp add: image_open_def world0_def)
  have 2: "ocr_process_single_file base_env world0 ''in/bad.png'' = (None, world0)"
    by (simp add: ocr_process_single_file_def ext_bad ocr_image_exts_def ocr_process_image_def o)
  have 4: "paddle_process_file base_env ''out'' world0 ''in/bad.png'' = (False, world0)"
    by (simp add: paddle_process_file_def ext_bad paddle_image_exts_def paddle_process_image_def
        resize_image_def o path_exists_def f save_if_result_def)
  show ?thesis
    using unsupported_skipped [of tally0 base_env "''in''" "''notes.txt''" "''out''" "[]" batch0 base_env]
      unsupported_skipped [of tally0 base_env "''in''" "''bad.png''" "''out''" "[]" batch0 base_env]
    by (simp add: join_in ext_txt f 2 4 tally0_def batch0_def)
qed

section \<open>The driver loop of \<^verbatim>\<open>main.py\<close>\<close>

lemma lower_input_path: "py_lower input_path \<noteq> ''quit''"
  by (simp add: py_lower_def input_path_def)

lemma ocr_main_body_cases:
  "ocr_main_body E w = Break \<Longrightarrow> False"
  "ocr_main_body E w = Raise e \<Longrightarrow> makedirs E ocr_output_dir = Some e \<or> listdir E input_path = Inl e"
  by (auto simp: ocr_main_body_def lower_input_path ocr_process_directory_def
      split: if_splits option.splits prod.splits sum.splits)

lemma ocr_main_result:
  assumes "ocr_main E w = Some r"
  shows "\<exists>e. r = Some e \<and> (makedirs E ocr_output_dir = Some e \<or> listdir E input_path = Inl e)"
proof (rule ocr_main.raw_induct
    [where P = "\<lambda>E w r. \<exists>e. r = Some e \<and>
       (makedirs E ocr_output_dir = Some e \<or> listdir E input_path = Inl e)", OF _ assms])
  fix f :: "ocr_result env \<Rightarrow> ocr_result world \<Rightarrow> exn option option" and E w r
  assume ih: "\<And>E w r. f E w = Some r \<Longrightarrow>
      \<exists>e. r = Some e \<and> (makedirs E ocr_output_dir = Some e \<or> listdir E input_path = Inl e)"
    and body: "(case ocr_main_body E w of Break \<Rightarrow> Some None | Again w' \<Rightarrow> f E w'
      | Raise e \<Rightarrow> Some (Some e)) = Some r"
  show "\<exists>e. r = Some e \<and> (makedirs E ocr_output_dir = Some e \<or> listdir E input_path = Inl e)"
  proof (cases "ocr_main_body E w")
    case Break
    then show ?thesis using ocr_main_body_cases(1) by blast
  next
    case (Again w')
    with body have "f E w' = Some r" by simp
    then show ?thesis by (rule ih)
  next
    case (Raise e)
    with body have "r = Some e" by simp
    with Raise ocr_main_body_cases(2) show ?thesis by blast
  qed
qed

text \<open>
  C10 (amended): \<^verbatim>\<open>main\<close> of \<^verbatim>\<open>main.py\<close> never returns: \<^verbatim>\<open>input_path\<close> is the constant, so
  the \<^verbatim>\<open>break\<close> is unreachable.  The run ends only when an exception escapes, and only
  \<^verbatim>\<open>os.makedirs\<close> (in \<^verbatim>\<open>OCRProcessor()\<close>) and \<^verbatim>\<open>os.listdir\<close> can raise one; where they do
  not, the loop runs for ever.
\<close>

theorem ocr_main_never_returns:
  "ocr_main E w \<noteq> Some None \<and>
   (\<forall>e. ocr_main E w = Some (Some e) \<longrightarrow>
      makedirs E ocr_output_dir = Some e \<or> listdir E input_path = Inl e) \<and>
   (makedirs E ocr_output_dir = None \<and> (\<forall>e. listdir E input_path \<noteq> Inl e) \<longrightarrow>
      ocr_main E w = None)"
  using ocr_main_result [of E w]
  by (cases "ocr_main E w") auto

text \<open>C10 where the input directory exists and nothing raises.\<close>

theorem ocr_main_never_returns_witness: "ocr_main idle_env world0 = None"
  using ocr_main_never_returns [of idle_env world0]
  by (simp add: idle_env_def base_env_def)

text \<open>
  C10, as stated, fails where the input directory exists and the output directory cannot
  be created: \<^verbatim>\<open>OCRProcessor()\<close> raises out of \<^verbatim>\<open>main\<close> and the program ends.
\<close>

theorem ocr_main_terminates_counterexample: "ocr_main no_output_env world0 = Some (Some OSError)"
  apply (subst ocr_main.simps)
  apply (simp add: ocr_main_body_def lower_input_path path_exists_def no_output_env_def base_env_def)
  done


section \<open>Writing results\<close>

lemma base_scan: "basename ''/'' ''in/scan.PNG'' = ''scan.PNG''"
  by code_simp

lemma image_scan:
  "ocr_process_image dump_fails_env world0 ''in/scan.PNG'' = (Some scan_result, tick world0)"
  by (simp add: ocr_process_image_def image_open_def world0_def dump_fails_env_def base_env_def
      tesseract_name_def page0_def scan_result_def base_scan tick_def)

lemma process_scan:
  "ocr_process_single_file dump_fails_env world0 ''in/scan.PNG'' = (Some (Single scan_result), tick world0)"
  by (simp add: ocr_process_single_file_def exts_dump ocr_image_exts_def image_scan)

lemma dump_fails: "open_w dump_fails_env q = None" "json_dump dump_fails_env x = Some TypeError"
  by (simp_all add: dump_fails_env_def base_env_def)

text \<open>
  C5, as stated, fails: writing is not all-or-nothing.  \<^verbatim>\<open>scan.PNG\<close> is recognised, the
  output file is opened (created), \<^verbatim>\<open>json.dump\<close> raises, \<^verbatim>\<open>save_results\<close> returns \<^verbatim>\<open>False\<close>,
  and a truncated artifact stays at \<^verbatim>\<open>out/scan.json\<close>, where no file was before.
\<close>

theorem truncated_artifact_counterexample:
  "ocr_process_single_file dump_fails_env world0 ''in/scan.PNG'' = (Some (Single scan_result), tick world0) \<and>
   save_results dump_fails_env ''out'' (tick world0) (Single scan_result) ''in/scan.PNG'' =
     (False, (tick world0)\<lparr>files := (files (tick world0))(''out/scan.json'' \<mapsto> Truncated (Single scan_result))\<rparr>) \<and>
   files (tick world0 :: ocr_result world) ''out/scan.json'' = None"
  by (simp add: process_scan save_results_def out_scan dump_fails)
     (simp add: tick_def world0_def)

lemma save_results_cases:
  "save_results E d w data p = (ok, w') \<Longrightarrow>
     (ok \<longrightarrow> truthy data \<and> open_w E (output_path_of E d p) = None \<and> json_dump E data = None \<and>
        w' = w\<lparr>files := (files w)(output_path_of E d p \<mapsto> Artifact data)\<rparr>) \<and>
     (\<not> ok \<longrightarrow> (w' = w \<and> (\<not> truthy data \<or> open_w E (output_path_of E d p) \<noteq> None)) \<or>
        (truthy data \<and> open_w E (output_path_of E d p) = None \<and> json_dump E data \<noteq> None \<and>
         w' = w\<lparr>files := (files w)(output_path_of E d p \<mapsto> Truncated data)\<rparr>))"
  by (auto simp: save_results_def Let_def split: if_splits option.splits)

lemma ocr_step_save_failed:
  fixes E :: "ocr_result env"
  assumes "isfile (world_of t) (path_join (seps E) dir f)"
    and "ocr_process_single_file E (world_of t) (path_join (seps E) dir f) = (Some data, w1)"
    and "save_results E out w1 data (path_join (seps E) dir f) = (False, w2)"
  shows "ocr_directory_step E out dir t f = t\<lparr>skipped_files := skipped_files t + 1, world_of := w2\<rparr>"
  using assms by (simp add: ocr_directory_step_def Let_def)

lemma paddle_step_save_failed:
  fixes P :: "result env"
  assumes "isfile (batch_world b) (path_join (seps P) dir f)"
    and "file_ext P (path_join (seps P) dir f) \<in>
      {''.jpg'', ''.jpeg'', ''.png'', ''.bmp'', ''.tiff'', ''.webp''}"
    and "paddle_process_image P (batch_world b) (path_join (seps P) dir f) = (Some r, w1)"
    and "save_results P out w1 (Single r) (path_join (seps P) dir f) = (False, w2)"
  shows "paddle_main_step P out dir b f = b\<lparr>files_failed := files_failed b + 1, batch_world := w2\<rparr>"
  using assms
  by (simp add: paddle_main_step_def paddle_process_file_def paddle_image_exts_def Let_def
      path_exists_def save_if_result_def)

text \<open>
  C5 (amended): \<^verbatim>\<open>save_results\<close> touches the output path only.  It returns \<^verbatim>\<open>True\<close> exactly
  when the data is non-empty, the file opens and \<^verbatim>\<open>json.dump\<close> completes, and then the
  path holds the complete payload.  When the open fails (or the data is empty) the world
  is unchanged; when \<^verbatim>\<open>json.dump\<close> fails after the open, the path holds a truncated
  artifact.  A file whose recognition succeeded and whose write failed adds one to
  \<^verbatim>\<open>skipped_files\<close> (\<^verbatim>\<open>main.py\<close>) or \<^verbatim>\<open>files_failed\<close> (\<^verbatim>\<open>paddle_ocr.py\<close>), not to the
  processed count.
\<close>

theorem save_results_outcome:
  fixes G :: "'r env" and E :: "ocr_result env" and P :: "result env"
  shows
  "(save_results G d w data p = (ok, w') \<longrightarrow>
     (\<forall>q. q \<noteq> output_path_of G d p \<longrightarrow> files w' q = files w q) \<and>
     (ok \<longleftrightarrow> truthy data \<and> open_w G (output_path_of G d p) = None \<and> json_dump G data = None) \<and>
     (ok \<longrightarrow> files w' (output_path_of G d p) = Some (Artifact data)) \<and>
     (\<not> ok \<and> truthy data \<and> open_w G (output_path_of G d p) = None \<longrightarrow>
        files w' (output_path_of G d p) = Some (Truncated data)) \<and>
     (\<not> ok \<and> (\<not> truthy data \<or> open_w G (output_path_of G d p) \<noteq> None) \<longrightarrow> w' = w)) \<and>
   (isfile (world_of t) (path_join (seps E) dir f) \<and>
    ocr_process_single_file E (world_of t) (path_join (seps E) dir f) = (Some data1, w1) \<and>
    save_results E out w1 data1 (path_join (seps E) dir f) = (False, w2) \<longrightarrow>
      ocr_directory_step E out dir t f =
        t\<lparr>skipped_files := skipped_files t + 1, world_of := w2\<rparr>) \<and>
   (isfile (batch_world b) (path_join (seps P) dir f) \<and>
    file_ext P (path_join (seps P) dir f) \<in>
      {''.jpg'', ''.jpeg'', ''.png'', ''.bmp'', ''.tiff'', ''.webp''} \<and>
    paddle_process_image P (batch_world b) (path_join (seps P) dir f) = (Some r, v1) \<and>
    save_results P out v1 (Single r) (path_join (seps P) dir f) = (False, v2) \<longrightarrow>
      paddle_main_step P out dir b f =
        b\<lparr>files_failed := files_failed b + 1, batch_world := v2\<rparr>)"
  (is "?A \<and> ?B \<and> ?C")
proof -
  have a: ?A
    using save_results_cases [of G d w data p ok w'] by auto
  have b: ?B
    using ocr_step_save_failed [of t E dir f data1 w1 out w2] by blast
  have c: ?C
    using paddle_step_save_failed [of b P dir f r v1 out v2] by blast
  from a b c show ?thesis by (intro conjI)
qed

lemma join_scan: "path_join (seps dump_fails_env) ''in'' ''scan.PNG'' = ''in/scan.PNG''"
  by (simp add: path_join_def seps_base)

lemma paddle_scan:
  "paddle_process_image dump_fails_env world0 ''in/scan.PNG'' = (Some blank_result, tick world0)"
  by (simp add: paddle_process_image_def resize_image_def image_open_def world0_def
      dump_fails_env_def base_env_def page0_def ocr_predict_def extract_blocks_def
      blank_result_def base_scan tick_def)

text \<open>C5 on \<^verbatim>\<open>scan.PNG\<close> where \<^verbatim>\<open>json.dump\<close> raises, in both scripts.\<close>

theorem save_results_outcome_witness:
  "ocr_directory_step dump_fails_env ''out'' ''in'' tally0 ''scan.PNG'' =
     tally0\<lparr>skipped_files := 1,
       world_of := (tick world0)\<lparr>files := (files (tick world0))
          (''out/scan.json'' \<mapsto> Truncated (Single scan_result))\<rparr>\<rparr> \<and>
   paddle_main_step dump_fails_env ''out'' ''in'' batch0 ''scan.PNG'' =
     batch0\<lparr>files_failed := 1,
       batch_world := (tick world0)\<lparr>files := (files (tick world0))
          (''out/scan.json'' \<mapsto> Truncated (Single blank_result))\<rparr>\<rparr>"
proof -
  let ?w1 = "(tick world0)\<lparr>files := (files (tick world0))
          (''out/scan.json'' \<mapsto> Truncated (Single scan_result))\<rparr>"
  let ?v1 = "(tick world0)\<lparr>files := (files (tick world0))
          (''out/scan.json'' \<mapsto> Truncated (Single blank_result))\<rparr>"
  have f: "isfile (world0 :: 'a world) ''in/scan.PNG''"
    by (simp add: isfile_def world0_def)
  have s1: "save_results dump_fails_env ''out'' (tick world0) (Single scan_result) ''in/scan.PNG''
      = (False, ?w1)"
    by (simp add: save_results_def out_scan dump_fails)
  have s2: "save_results dump_fails_env ''out'' (tick world0) (Single blank_result) ''in/scan.PNG''
      = (False, ?v1)"
    by (simp add: save_results_def out_scan dump_fails)
  show ?thesis
    using save_results_outcome [of dump_fails_env "''out''" "tick world0" "Single scan_result" "''in/scan.PNG''"
        False ?w1 tally0 dump_fails_env "''in''" "''scan.PNG''" "Single scan_result" "tick world0"
        "''out''" ?w1 batch0 dump_fails_env blank_result "tick world0" ?v1]
    by (simp add: join_scan f s1 s2 process_scan paddle_scan exts_dump tally0_def batch0_def)
qed


section \<open>Text blocks of \<^verbatim>\<open>PaddleOCRProcessor.process_image\<close>\<close>






























section \<open>Temporary files\<close>

lemma new_size_poster: "new_size 5000 3000 4000 = (4000, 2400)"
  by code_simp

lemma base_poster: "basename ''/'' ''in/poster.png'' = ''poster.png''"
  by code_simp

lemma resize_poster:
  "resize_image engine_down_env poster_world ''in/poster.png'' 4000 =
     (Inr ''resized_poster.png'',
      poster_world\<lparr>files := (files poster_world)
        (''resized_poster.png'' \<mapsto> ImageData (poster\<lparr>width := 4000, height := 2400\<rparr>))\<rparr>)"
  by (simp add: resize_image_def image_open_def poster_world_def poster_def new_size_poster
      pil_resize_def engine_down_env_def base_env_def base_poster Let_def)

text \<open>
  C8 fails on the code: \<^verbatim>\<open>process_image\<close> writes \<^verbatim>\<open>resized_poster.png\<close> for a 5000 by 3000
  image, \<^verbatim>\<open>predict\<close> raises, the handler of line 103 returns \<^verbatim>\<open>None\<close>, and the copy that
  line 85 would have removed is still there.
\<close>

theorem resized_copy_left_behind:
  "fst (paddle_process_image engine_down_env poster_world ''in/poster.png'') = None \<and>
   files (snd (paddle_process_image engine_down_env poster_world ''in/poster.png''))
     ''resized_poster.png'' = Some (ImageData (poster\<lparr>width := 4000, height := 2400\<rparr>)) \<and>
   files (poster_world :: result world) ''resized_poster.png'' = None"
proof -
  have o: "ocr_predict engine_down_env
      (poster_world\<lparr>files := (files poster_world)
        (''resized_poster.png'' \<mapsto> ImageData (poster\<lparr>width := 4000, height := 2400\<rparr>))\<rparr>)
      ''resized_poster.png'' = Inl RuntimeError"
    by (simp add: ocr_predict_def image_open_def engine_down_env_def)
  have n: "files (poster_world :: result world) ''resized_poster.png'' = None"
    by (simp add: poster_world_def)
  show ?thesis
    by (simp add: paddle_process_image_def resize_poster o n)
qed


section \<open>Pages of a PDF\<close>



























section \<open>Failure isolation in the batch loops\<close>








lemma save_if_result_None: "\<not> fst (save_if_result P d (None, v1) q)"
  by (simp add: save_if_result_def)










section \<open>Resizing\<close>




















text \<open>The float product can undershoot: 4210 by 2000 becomes 3999 by 1900.\<close>

lemma new_size_banner: "new_size 4210 2000 4000 = (3999, 1900)"
  by code_simp



end
